theory Spec2Isabelle
  imports Main
begin

section \<open>Python values, strings and exceptions\<close>

text \<open>
  A cell of a result row is a dynamically typed Python value. The model keeps the three
  kinds the handlers can tell apart: \<open>None\<close>, an integer and a string.
\<close>

datatype cell = CNone | CInt int | CStr string

type_synonym row = "cell list"

definition digit_char :: "nat \<Rightarrow> char" where
  "digit_char d = ''0123456789'' ! d"

fun str_nat :: "nat \<Rightarrow> string" where
  "str_nat n = (if n < 10 then [digit_char n] else str_nat (n div 10) @ [digit_char (n mod 10)])"

declare str_nat.simps [simp del]

definition str_int :: "int \<Rightarrow> string" where
  "str_int i = (if i < 0 then CHR ''-'' # str_nat (nat (- i)) else str_nat (nat i))"

text \<open>\<open>str(x)\<close> and the truth value of \<open>x\<close> in a condition.\<close>

fun py_str :: "cell \<Rightarrow> string" where
  "py_str CNone = ''None''"
| "py_str (CInt i) = str_int i"
| "py_str (CStr s) = s"

fun truthy :: "cell \<Rightarrow> bool" where
  "truthy CNone = False"
| "truthy (CInt i) = (i \<noteq> 0)"
| "truthy (CStr s) = (s \<noteq> [])"

text \<open>\<open>sep.join(xs)\<close>\<close>

fun join :: "string \<Rightarrow> string list \<Rightarrow> string" where
  "join sep [] = []"
| "join sep [x] = x"
| "join sep (x # y # ys) = x @ sep @ join sep (y # ys)"

text \<open>\<open>s.split(c)\<close> for a separator of one character: the lines of a text when \<open>c\<close> is the newline.\<close>

fun split_on :: "char \<Rightarrow> string \<Rightarrow> string list" where
  "split_on c [] = [[]]"
| "split_on c (x # xs) =
     (if x = c then [] # split_on c xs
      else (case split_on c xs of
              [] \<Rightarrow> [[x]]
            | l # ls \<Rightarrow> (x # l) # ls))"

text \<open>
  Exceptions, by the classes the handlers distinguish: \<open>mysql.connector.Error\<close> (and its
  subclasses), \<open>ValueError\<close>, and any other subclass of \<open>Exception\<close>. Each carries the
  text \<open>str(e)\<close>.
\<close>

datatype exn = Error string | ValueError string | OtherException string

section \<open>Configuration from the environment\<close>

type_synonym environ = "string \<rightharpoonup> string"

datatype cval = VStr string | VInt int | VBool bool

type_synonym config = "(string \<times> cval) list"

text \<open>\<open>os.getenv(key, default)\<close>\<close>

definition getenv_or :: "environ \<Rightarrow> string \<Rightarrow> string \<Rightarrow> string" where
  "getenv_or env k d = (case env k of Some v \<Rightarrow> v | None \<Rightarrow> d)"

text \<open>
  \<open>int(s)\<close> on a string, as CPython 3.12 does it with its default limit on the number of
  digits. A character of the model is a code point below 256. White space around the
  number is dropped (the blanks of C's \<open>isspace\<close>, and the two blanks above 127, which
  are first turned into spaces), one sign is allowed, and the digits may be grouped by
  single underscores. No code point below 256 other than \<open>0\<close> to \<open>9\<close> is a decimal
  digit.
\<close>

definition is_digit :: "char \<Rightarrow> bool" where
  "is_digit c = (c \<in> set ''0123456789'')"

definition digit_val :: "char \<Rightarrow> nat" where
  "digit_val c = of_char c - 48"

definition is_space :: "char \<Rightarrow> bool" where
  "is_space c = (c \<in> set [CHR '' '', CHR 0x09, CHR 0x0A, CHR 0x0B, CHR 0x0C, CHR 0x0D,
                             CHR 0x85, CHR 0xA0])"

definition strip :: "string \<Rightarrow> string" where
  "strip s = rev (dropWhile is_space (rev (dropWhile is_space s)))"

text \<open>The value of the digits read so far and their number, underscores not counted.\<close>

fun scan_digits :: "nat \<Rightarrow> nat \<Rightarrow> string \<Rightarrow> (nat \<times> nat) option" where
  "scan_digits acc n [] = Some (acc, n)"
| "scan_digits acc n [c] =
     (if is_digit c then Some (acc * 10 + digit_val c, n + 1) else None)"
| "scan_digits acc n (c # d # r) =
     (if is_digit c then scan_digits (acc * 10 + digit_val c) (n + 1) (d # r)
      else if c = CHR ''_'' \<and> is_digit d then scan_digits acc n (d # r)
      else None)"

definition parse_digits :: "string \<Rightarrow> (nat \<times> nat) option" where
  "parse_digits s = (case s of [] \<Rightarrow> None
                     | c # r \<Rightarrow> if is_digit c then scan_digits 0 0 s else None)"

text \<open>Whether the number is negative, its absolute value and its number of digits.\<close>

definition parse_int :: "string \<Rightarrow> (bool \<times> nat \<times> nat) option" where
  "parse_int s =
     (case strip s of
        [] \<Rightarrow> None
      | c # r \<Rightarrow>
          if c = CHR ''-'' then map_option (\<lambda>vn. (True, vn)) (parse_digits r)
          else if c = CHR ''+'' then map_option (\<lambda>vn. (False, vn)) (parse_digits r)
          else map_option (\<lambda>vn. (False, vn)) (parse_digits (c # r)))"

text \<open>
  \<open>repr(s)\<close>: between double quotes when the text holds a single quote and no double
  quote, between single quotes otherwise; the quote in use and the backslash are
  escaped, tab, newline and carriage return are written \<open>\t\<close>, \<open>\n\<close>, \<open>\r\<close>, and any other
  code point that is not printable is written \<open>\xhh\<close>.
\<close>

definition is_printable :: "char \<Rightarrow> bool" where
  "is_printable c =
     ((32 \<le> (of_char c :: nat) \<and> (of_char c :: nat) < 127) \<or>
      (161 \<le> (of_char c :: nat) \<and> (of_char c :: nat) \<noteq> 173))"

definition hex_digit :: "nat \<Rightarrow> char" where
  "hex_digit d = ''0123456789abcdef'' ! d"

definition repr_char :: "char \<Rightarrow> char \<Rightarrow> string" where
  "repr_char quote c =
     (if c = quote \<or> c = CHR 0x5C then [CHR 0x5C, c]
      else if c = CHR 0x09 then [CHR 0x5C, CHR ''t'']
      else if c = CHR 0x0A then [CHR 0x5C, CHR ''n'']
      else if c = CHR 0x0D then [CHR 0x5C, CHR ''r'']
      else if \<not> is_printable c
        then [CHR 0x5C, CHR ''x'', hex_digit (of_char c div 16), hex_digit (of_char c mod 16)]
      else [c])"

definition py_repr :: "string \<Rightarrow> string" where
  "py_repr s =
     (let quote = (if CHR 0x27 \<in> set s \<and> CHR 0x22 \<notin> set s then CHR 0x22 else CHR 0x27)
      in [quote] @ concat (map (repr_char quote) s) @ [quote])"

text \<open>
  A text that is not a number raises \<open>ValueError\<close> with at most 200 characters of its
  \<open>repr\<close>; a number of more than 4300 digits raises \<open>ValueError\<close> too.
\<close>

definition py_int :: "string \<Rightarrow> exn + int" where
  "py_int s =
     (case parse_int s of
        None \<Rightarrow>
          Inl (ValueError (''invalid literal for int() with base 10: '' @ take 200 (py_repr s)))
      | Some (negative, v, n) \<Rightarrow>
          if n > 4300 then
            Inl (ValueError
                   (''Exceeds the limit (4300 digits) for integer string conversion: '' @
                    ''value has '' @ str_nat n @ '' digits; '' @
                    ''use sys.set_int_max_str_digits() to increase the limit''))
          else Inr (if negative then - int v else int v))"

fun cval_truthy :: "cval option \<Rightarrow> bool" where
  "cval_truthy None = False"
| "cval_truthy (Some (VStr s)) = (s \<noteq> [])"
| "cval_truthy (Some (VInt i)) = (i \<noteq> 0)"
| "cval_truthy (Some (VBool b)) = b"

text \<open>The comprehension \<open>{k: v for k, v in config.items() if v is not None}\<close>.\<close>

fun drop_none :: "(string \<times> cval option) list \<Rightarrow> config" where
  "drop_none [] = []"
| "drop_none ((k, None) # kvs) = drop_none kvs"
| "drop_none ((k, Some v) # kvs) = (k, v) # drop_none kvs"

definition missing_config_message :: string where
  "missing_config_message =
     ''Missing required database configuration. '' @
     ''Please set MYSQL_USER, MYSQL_PASSWORD, and MYSQL_DATABASE '' @
     ''environment variables.''"

definition get_db_config :: "environ \<Rightarrow> exn + config" where
  "get_db_config env =
     (case py_int (getenv_or env ''MYSQL_PORT'' ''3306'') of
        Inl e \<Rightarrow> Inl e
      | Inr port \<Rightarrow>
          let config0 =
                [(''host'', Some (VStr (getenv_or env ''MYSQL_HOST'' ''localhost''))),
                 (''port'', Some (VInt port)),
                 (''user'', map_option VStr (env ''MYSQL_USER'')),
                 (''password'', map_option VStr (env ''MYSQL_PASSWORD'')),
                 (''database'', map_option VStr (env ''MYSQL_DATABASE'')),
                 (''charset'', Some (VStr (getenv_or env ''MYSQL_CHARSET'' ''utf8mb4''))),
                 (''collation'',
                    Some (VStr (getenv_or env ''MYSQL_COLLATION'' ''utf8mb4_unicode_ci''))),
                 (''autocommit'', Some (VBool True)),
                 (''sql_mode'', Some (VStr (getenv_or env ''MYSQL_SQL_MODE'' ''TRADITIONAL'')))];
              config1 =
                (case env ''MYSQL_CERT'' of
                   None \<Rightarrow> config0
                 | Some ssl_cert \<Rightarrow>
                     if ssl_cert \<noteq> [] then config0 @ [(''ssl_ca'', Some (VStr ssl_cert))]
                     else config0);
              config = drop_none config1
          in if \<not> (cval_truthy (map_of config ''user'') \<and>
                    cval_truthy (map_of config ''password'') \<and>
                    cval_truthy (map_of config ''database''))
             then Inl (ValueError missing_config_message)
             else Inr config)"

section \<open>The database boundary\<close>

text \<open>
  What the driver answers. \<open>connect\<close>, \<open>cursor\<close> and \<open>commit\<close> either succeed or raise;
  \<open>execute\<close> raises or leaves the cursor with a description (the column names, absent
  for a statement that returns no rows), a row count and what \<open>fetchall\<close> and
  \<open>fetchone\<close> will give. Leaving a \<open>with\<close> block releases the cursor or the connection
  and is taken not to raise.
\<close>

record cursor_result =
  description :: "string list option"
  rowcount :: int
  fetchall :: "exn + row list"
  fetchone :: "exn + row option"

record database =
  connect :: "config \<Rightarrow> exn option"
  cursor :: "exn option"
  execute :: "string \<Rightarrow> row option \<Rightarrow> exn + cursor_result"
  commit :: "exn option"

text \<open>Every call made on the driver is recorded, in order.\<close>

datatype event = Connect | OpenCursor | Execute string "row option" | Fetchall | Fetchone | Commit

datatype result = Returned string | Raised exn

text \<open>\<open>with connect(**config) as conn: with conn.cursor() as cursor: body\<close>\<close>

definition with_cursor ::
  "config \<Rightarrow> database \<Rightarrow> ((exn + 'a) \<times> event list) \<Rightarrow> (exn + 'a) \<times> event list" where
  "with_cursor config db body =
     (case connect db config of
        Some e \<Rightarrow> (Inl e, [Connect])
      | None \<Rightarrow>
          (case cursor db of
             Some e \<Rightarrow> (Inl e, [Connect, OpenCursor])
           | None \<Rightarrow> (fst body, [Connect, OpenCursor] @ snd body)))"

text \<open>The two \<open>except\<close> clauses shared by the three handlers.\<close>

fun except_clauses :: "exn \<Rightarrow> string" where
  "except_clauses (Error m) = ''MySQL error: '' @ m"
| "except_clauses (ValueError m) = ''Unexpected error: '' @ m"
| "except_clauses (OtherException m) = ''Unexpected error: '' @ m"

definition try_except :: "(exn + string) \<times> event list \<Rightarrow> result \<times> event list" where
  "try_except r = (case fst r of
                     Inl e \<Rightarrow> (Returned (except_clauses e), snd r)
                   | Inr s \<Rightarrow> (Returned s, snd r))"

section \<open>execute_sql\<close>

definition execute_sql_body :: "database \<Rightarrow> string \<Rightarrow> (exn + string) \<times> event list" where
  "execute_sql_body db query =
     (case execute db query None of
        Inl e \<Rightarrow> (Inl e, [Execute query None])
      | Inr cur \<Rightarrow>
          if (case description cur of None \<Rightarrow> False | Some d \<Rightarrow> d \<noteq> []) then
            (let columns = the (description cur) in
             case fetchall cur of
               Inl e \<Rightarrow> (Inl e, [Execute query None, Fetchall])
             | Inr rows \<Rightarrow>
                 if rows = [] then
                   (Inr ''Query executed successfully. No results returned.'',
                    [Execute query None, Fetchall])
                 else
                   (let result_lines =
                          [join '','' columns] @ map (\<lambda>row. join '','' (map py_str row)) rows
                    in (Inr (join [CHR 0x0A] result_lines), [Execute query None, Fetchall])))
          else
            (case commit db of
               Some e \<Rightarrow> (Inl e, [Execute query None, Commit])
             | None \<Rightarrow>
                 (Inr (''Query executed successfully. '' @ str_int (rowcount cur) @
                       '' rows affected.''),
                  [Execute query None, Commit])))"

definition execute_sql :: "environ \<Rightarrow> database \<Rightarrow> string \<Rightarrow> result \<times> event list" where
  "execute_sql env db query =
     (case get_db_config env of
        Inl e \<Rightarrow> (Raised e, [])
      | Inr config \<Rightarrow> try_except (with_cursor config db (execute_sql_body db query)))"

section \<open>list_tables\<close>

text \<open>The loop over the fetched rows: a row that is empty contributes no entry.\<close>

fun table_list :: "row list \<Rightarrow> string list" where
  "table_list [] = []"
| "table_list (table # tables) =
     (if table \<noteq> [] \<and> length table > 0 then (''- '' @ py_str (table ! 0)) # table_list tables
      else table_list tables)"

definition list_tables_body :: "database \<Rightarrow> (exn + string) \<times> event list" where
  "list_tables_body db =
     (case execute db ''SHOW TABLES'' None of
        Inl e \<Rightarrow> (Inl e, [Execute ''SHOW TABLES'' None])
      | Inr cur \<Rightarrow>
          (case fetchall cur of
             Inl e \<Rightarrow> (Inl e, [Execute ''SHOW TABLES'' None, Fetchall])
           | Inr tables \<Rightarrow>
               if tables = [] then
                 (Inr ''No tables found in the database.'', [Execute ''SHOW TABLES'' None, Fetchall])
               else
                 (Inr (''Available tables:'' @ [CHR 0x0A] @ join [CHR 0x0A] (table_list tables)),
                  [Execute ''SHOW TABLES'' None, Fetchall])))"

definition list_tables :: "environ \<Rightarrow> database \<Rightarrow> result \<times> event list" where
  "list_tables env db =
     (case get_db_config env of
        Inl e \<Rightarrow> (Raised e, [])
      | Inr config \<Rightarrow> try_except (with_cursor config db (list_tables_body db)))"

section \<open>describe_table\<close>

text \<open>
  Unpacking a row into six names raises \<open>ValueError\<close> when the row has another length
  (the messages are those of CPython 3.13 and earlier).
\<close>

definition unpack_message :: "nat \<Rightarrow> string" where
  "unpack_message n =
     (if n < 6 then ''not enough values to unpack (expected 6, got '' @ str_nat n @ '')''
      else ''too many values to unpack (expected 6)'')"

fun column_line :: "row \<Rightarrow> exn + string" where
  "column_line [field, ctype, null, key, dflt, extra] =
     (let null_str = (if null = CStr ''YES'' then ''NULL'' else ''NOT NULL'');
          key_str = (if truthy key then '' ('' @ py_str key @ '')'' else []);
          default_str = (if dflt \<noteq> CNone then '' DEFAULT '' @ py_str dflt else []);
          extra_str = (if truthy extra then '' '' @ py_str extra else []);
          col_info = null_str @ key_str @ default_str @ extra_str
      in Inr (''  - '' @ py_str field @ '': '' @ py_str ctype @ '' '' @ col_info))"
| "column_line col = Inl (ValueError (unpack_message (length col)))"

text \<open>The loop \<open>for col in columns\<close>, appending one line per column to \<open>result\<close>.\<close>

fun column_lines :: "string list \<Rightarrow> row list \<Rightarrow> exn + string list" where
  "column_lines result [] = Inr result"
| "column_lines result (col # columns) =
     (case column_line col of
        Inl e \<Rightarrow> Inl e
      | Inr line \<Rightarrow> column_lines (result @ [line]) columns)"

definition row_count_of :: "row option \<Rightarrow> cell" where
  "row_count_of count_result =
     (case count_result of
        None \<Rightarrow> CInt 0
      | Some [] \<Rightarrow> CInt 0
      | Some (c # cs) \<Rightarrow> c)"

definition describe_query :: "string \<Rightarrow> string" where
  "describe_query table = ''DESCRIBE `'' @ table @ ''`''"

definition count_query :: "string \<Rightarrow> string" where
  "count_query table = ''SELECT COUNT(*) FROM `'' @ table @ ''`''"

definition describe_table_body :: "database \<Rightarrow> string \<Rightarrow> (exn + string) \<times> event list" where
  "describe_table_body db table =
     (case execute db (describe_query table) None of
        Inl e \<Rightarrow> (Inl e, [Execute (describe_query table) None])
      | Inr cur \<Rightarrow>
          (case fetchall cur of
             Inl e \<Rightarrow> (Inl e, [Execute (describe_query table) None, Fetchall])
           | Inr columns \<Rightarrow>
               if columns = [] then
                 (Inr (''Table '' @ [CHR 0x27] @ table @ [CHR 0x27] @
                       '' not found or has no columns.''),
                  [Execute (describe_query table) None, Fetchall])
               else
                 (case column_lines
                         [''Table: '' @ table, replicate 50 (CHR ''=''), [], ''Columns:'']
                         columns of
                    Inl e \<Rightarrow> (Inl e, [Execute (describe_query table) None, Fetchall])
                  | Inr result \<Rightarrow>
                      (case execute db (count_query table) None of
                         Inl e \<Rightarrow>
                           (Inl e, [Execute (describe_query table) None, Fetchall,
                                    Execute (count_query table) None])
                       | Inr cur2 \<Rightarrow>
                           (case fetchone cur2 of
                              Inl e \<Rightarrow>
                                (Inl e, [Execute (describe_query table) None, Fetchall,
                                         Execute (count_query table) None, Fetchone])
                            | Inr count_result \<Rightarrow>
                                (Inr (join [CHR 0x0A]
                                        (result @
                                         [[], ''Total rows: '' @
                                              py_str (row_count_of count_result)])),
                                 [Execute (describe_query table) None, Fetchall,
                                  Execute (count_query table) None, Fetchone]))))))"

definition describe_table :: "environ \<Rightarrow> database \<Rightarrow> string \<Rightarrow> result \<times> event list" where
  "describe_table env db table =
     (case get_db_config env of
        Inl e \<Rightarrow> (Raised e, [])
      | Inr config \<Rightarrow> try_except (with_cursor config db (describe_table_body db table)))"

section \<open>The identifier rule and the existence check\<close>

text \<open>
  \<open>server.py\<close> defines neither \<open>validate_table_name\<close> nor \<open>table_exists\<close>, although the
  package exports both and the tests call them; \<open>describe_table\<close> calls neither.
\<close>

definition is_letter :: "char \<Rightarrow> bool" where
  "is_letter c = (c \<in> set ''abcdefghijklmnopqrstuvwxyzABCDEFGHIJKLMNOPQRSTUVWXYZ'')"

definition is_ident_char :: "char \<Rightarrow> bool" where
  "is_ident_char c = (is_letter c \<or> is_digit c \<or> c = CHR ''_'' \<or> c = CHR ''$'')"

text \<open>
  Modelled from the spec: the body of \<open>validate_table_name\<close> is missing from the
  sources. The spec's contract: false for the empty string, for a length above 64,
  for any character outside \<open>[A-Za-z0-9_$]\<close> and for a first character that is a
  digit; true otherwise.
\<close>

definition validate_table_name :: "string \<Rightarrow> bool" where
  "validate_table_name name =
     (if name = [] then False
      else if length name > 64 then False
      else if list_ex (\<lambda>c. \<not> is_ident_char c) name then False
      else if is_digit (hd name) then False
      else True)"

text \<open>
  The pattern \<open>^[A-Za-z_$][A-Za-z0-9_$]*$\<close> of the spec's data model, as a matcher on
  the whole string.
\<close>

fun matches_identifier :: "string \<Rightarrow> bool" where
  "matches_identifier [] = False"
| "matches_identifier (c # cs) =
     ((is_letter c \<or> c = CHR ''_'' \<or> c = CHR ''$'') \<and> list_all is_ident_char cs)"

text \<open>
  Modelled from the spec: the body of \<open>table_exists\<close> is missing from the sources. The
  spec's contract, with the statement the tests expect: open a scoped connection and
  cursor, run \<open>SHOW TABLES LIKE %s\<close> with the name as its bound parameter, return true
  iff a row comes back; on a database error return false instead of propagating.
\<close>

definition table_exists_body :: "database \<Rightarrow> string \<Rightarrow> (exn + bool) \<times> event list" where
  "table_exists_body db table_name =
     (case execute db ''SHOW TABLES LIKE %s'' (Some [CStr table_name]) of
        Inl e \<Rightarrow> (Inl e, [Execute ''SHOW TABLES LIKE %s'' (Some [CStr table_name])])
      | Inr cur \<Rightarrow>
          (case fetchone cur of
             Inl e \<Rightarrow> (Inl e, [Execute ''SHOW TABLES LIKE %s'' (Some [CStr table_name]), Fetchone])
           | Inr r \<Rightarrow>
               (Inr (r \<noteq> None),
                [Execute ''SHOW TABLES LIKE %s'' (Some [CStr table_name]), Fetchone])))"

definition table_exists :: "string \<Rightarrow> config \<Rightarrow> database \<Rightarrow> (exn + bool) \<times> event list" where
  "table_exists table_name config db =
     (case with_cursor config db (table_exists_body db table_name) of
        (Inl (Error m), evs) \<Rightarrow> (Inr False, evs)
      | (Inl e, evs) \<Rightarrow> (Inl e, evs)
      | (Inr b, evs) \<Rightarrow> (Inr b, evs))"

section \<open>Environments and databases of the test suite\<close>

definition test_env :: environ where
  "test_env = [''MYSQL_USER'' \<mapsto> ''test_user'', ''MYSQL_PASSWORD'' \<mapsto> ''test_password'',
               ''MYSQL_DATABASE'' \<mapsto> ''test_db'']"

definition test_config :: config where
  "test_config =
     [(''host'', VStr ''localhost''), (''port'', VInt 3306), (''user'', VStr ''test_user''),
      (''password'', VStr ''test_password''), (''database'', VStr ''test_db''),
      (''charset'', VStr ''utf8mb4''), (''collation'', VStr ''utf8mb4_unicode_ci''),
      (''autocommit'', VBool True), (''sql_mode'', VStr ''TRADITIONAL'')]"

text \<open>A cursor after a statement that ran: its description, row count and rows.\<close>

definition result_set :: "string list option \<Rightarrow> int \<Rightarrow> row list \<Rightarrow> cursor_result" where
  "result_set d n rows =
     \<lparr>description = d, rowcount = n, fetchall = Inr rows,
      fetchone = Inr (case rows of [] \<Rightarrow> None | r # rs \<Rightarrow> Some r)\<rparr>"

text \<open>A driver that answers every statement with the same cursor, as the mocks do.\<close>

definition mock_db :: "cursor_result \<Rightarrow> database" where
  "mock_db cur = \<lparr>connect = (\<lambda>config. None), cursor = None,
                  execute = (\<lambda>sql params. Inr cur), commit = None\<rparr>"

text \<open>A server that refuses the connection.\<close>

definition unreachable_db :: "string \<Rightarrow> database" where
  "unreachable_db msg = \<lparr>connect = (\<lambda>config. Some (Error msg)), cursor = None,
                         execute = (\<lambda>sql params. Inl (Error msg)), commit = None\<rparr>"

text \<open>
  A reachable server on which the requested table is absent: the catalog query finds
  no row, and every other statement is refused with the server's message.
\<close>

definition absent_table_db :: "string \<Rightarrow> database" where
  "absent_table_db msg =
     \<lparr>connect = (\<lambda>config. None), cursor = None,
      execute = (\<lambda>sql params. if sql = ''SHOW TABLES LIKE %s''
                               then Inr (result_set (Some [''Tables_in_test_db'']) 0 [])
                               else Inl (Error msg)),
      commit = None\<rparr>"

text \<open>A reachable server that refuses every statement with the given message.\<close>

definition rejecting_db :: "string \<Rightarrow> database" where
  "rejecting_db msg = \<lparr>connect = (\<lambda>config. None), cursor = None,
                       execute = (\<lambda>sql params. Inl (Error msg)), commit = None\<rparr>"


section \<open>Configuration: what the resolved dictionary guarantees\<close>

lemma map_of_drop_none_absent:
  "\<forall>v. (k, Some v) \<notin> set kvs \<Longrightarrow> map_of (drop_none kvs) k = None"
  by (induction kvs rule: drop_none.induct) auto

lemma get_db_config_requires:
  assumes "get_db_config env = Inr config"
  shows "env ''MYSQL_USER'' \<noteq> None \<and> env ''MYSQL_PASSWORD'' \<noteq> None \<and>
         env ''MYSQL_DATABASE'' \<noteq> None"
proof -
  obtain port where p: "py_int (getenv_or env ''MYSQL_PORT'' ''3306'') = Inr port"
    using assms
    by (cases "py_int (getenv_or env ''MYSQL_PORT'' ''3306'')") (simp_all add: get_db_config_def)
  define config0 where "config0 =
                [(''host'', Some (VStr (getenv_or env ''MYSQL_HOST'' ''localhost''))),
                 (''port'', Some (VInt port)),
                 (''user'', map_option VStr (env ''MYSQL_USER'')),
                 (''password'', map_option VStr (env ''MYSQL_PASSWORD'')),
                 (''database'', map_option VStr (env ''MYSQL_DATABASE'')),
                 (''charset'', Some (VStr (getenv_or env ''MYSQL_CHARSET'' ''utf8mb4''))),
                 (''collation'',
                    Some (VStr (getenv_or env ''MYSQL_COLLATION'' ''utf8mb4_unicode_ci''))),
                 (''autocommit'', Some (VBool True)),
                 (''sql_mode'', Some (VStr (getenv_or env ''MYSQL_SQL_MODE'' ''TRADITIONAL'')))]"
  define config1 where "config1 =
                (case env ''MYSQL_CERT'' of
                   None \<Rightarrow> config0
                 | Some ssl_cert \<Rightarrow>
                     if ssl_cert \<noteq> [] then config0 @ [(''ssl_ca'', Some (VStr ssl_cert))]
                     else config0)"
  have t: "cval_truthy (map_of (drop_none config1) ''user'') \<and>
           cval_truthy (map_of (drop_none config1) ''password'') \<and>
           cval_truthy (map_of (drop_none config1) ''database'')"
    using assms p unfolding get_db_config_def config1_def config0_def
    by (simp add: Let_def split: if_splits)
  have sub: "set config1 \<subseteq> set config0 \<union> {(''ssl_ca'', Some (VStr c)) | c. True}"
    unfolding config1_def by (auto split: option.splits)
  have u: "env ''MYSQL_USER'' = None \<Longrightarrow> \<forall>v. (''user'', Some v) \<notin> set config1"
    using sub unfolding config0_def by auto
  have pw: "env ''MYSQL_PASSWORD'' = None \<Longrightarrow> \<forall>v. (''password'', Some v) \<notin> set config1"
    using sub unfolding config0_def by auto
  have d: "env ''MYSQL_DATABASE'' = None \<Longrightarrow> \<forall>v. (''database'', Some v) \<notin> set config1"
    using sub unfolding config0_def by auto
  show ?thesis
    using t map_of_drop_none_absent [OF u] map_of_drop_none_absent [OF pw]
          map_of_drop_none_absent [OF d]
    by (metis cval_truthy.simps(1))
qed

lemma py_int_raises_ValueError: "py_int s = Inl e \<Longrightarrow> \<exists>m. e = ValueError m"
  by (auto simp: py_int_def split: option.splits if_splits)

lemma get_db_config_raises_ValueError:
  assumes "get_db_config env = Inl e"
  shows "\<exists>m. e = ValueError m"
proof (cases "py_int (getenv_or env ''MYSQL_PORT'' ''3306'')")
  case (Inl e')
  then have "e = e'" using assms by (simp add: get_db_config_def)
  then show ?thesis using Inl py_int_raises_ValueError by blast
next
  case (Inr port)
  then have "e = ValueError missing_config_message"
    using assms unfolding get_db_config_def Let_def
    by (simp split: if_splits)
  then show ?thesis by blast
qed

lemma test_env_config: "get_db_config test_env = Inr test_config"
  by (simp add: get_db_config_def test_env_def test_config_def getenv_or_def py_int_def
      parse_int_def strip_def is_space_def parse_digits_def is_digit_def digit_val_def Let_def)

lemma py_int_examples:
  "py_int '' 3_306 '' = Inr 3306"
  "py_int ''-12'' = Inr (- 12)"
  "py_int [CHR 0x1F, CHR ''3''] =
     Inl (ValueError (''invalid literal for int() with base 10: '' @
                      [CHR 0x27, CHR 0x5C] @ ''x1f3'' @ [CHR 0x27]))"
  "py_int ''3'6'' =
     Inl (ValueError (''invalid literal for int() with base 10: '' @
                      [CHR 0x22] @ ''3'6'' @ [CHR 0x22]))"
  "py_int ''33__06'' =
     Inl (ValueError (''invalid literal for int() with base 10: '' @
                      [CHR 0x27] @ ''33__06'' @ [CHR 0x27]))"
  by (simp_all add: py_int_def parse_int_def strip_def is_space_def parse_digits_def
                    is_digit_def digit_val_def py_repr_def repr_char_def is_printable_def
                    hex_digit_def Let_def)

section \<open>The identifier rule\<close>

text \<open>
  C2. \<open>validate_table_name\<close> rejects exactly the strings that are empty, longer than 64,
  start with a digit or hold a character outside \<open>[A-Za-z0-9_$]\<close>; in particular every
  string of length 1 to 64 that matches \<open>[A-Za-z_$][A-Za-z0-9_$]*\<close> is accepted, a leading
  underscore or dollar sign included, with no list of reserved words.
\<close>

theorem validate_table_name_rule:
  "(\<not> validate_table_name s \<longleftrightarrow>
      s = [] \<or> 64 < length s \<or> (\<exists>c cs. s = c # cs \<and> is_digit c) \<or>
      (\<exists>c\<in>set s. \<not> is_ident_char c)) \<and>
   (1 \<le> length s \<and> length s \<le> 64 \<and> matches_identifier s \<longrightarrow> validate_table_name s)"
proof (cases s)
  case Nil
  then show ?thesis by (simp add: validate_table_name_def)
next
  case (Cons c cs)
  have dl: "is_digit c \<Longrightarrow> \<not> is_letter c \<and> c \<noteq> CHR ''_'' \<and> c \<noteq> CHR ''$''"
    by (auto simp: is_digit_def is_letter_def)
  show ?thesis using Cons dl
    by (auto simp: validate_table_name_def list_ex_iff list_all_iff is_ident_char_def)
qed

theorem validate_table_name_rule_witness:
  "1 \<le> length ''$system_table'' \<and> length ''$system_table'' \<le> 64 \<and>
   matches_identifier ''$system_table'' \<and> validate_table_name ''$system_table'' \<and>
   \<not> validate_table_name ''123table'' \<and> \<not> validate_table_name ''table-name''"
  using validate_table_name_rule [of "''$system_table''"]
        validate_table_name_rule [of "''123table''"]
        validate_table_name_rule [of "''table-name''"]
  by (simp add: is_ident_char_def is_letter_def is_digit_def)

section \<open>Missing configuration\<close>

text \<open>
  C10. When any of \<open>MYSQL_USER\<close>, \<open>MYSQL_PASSWORD\<close> or \<open>MYSQL_DATABASE\<close> is unset, each of
  \<open>execute_sql\<close>, \<open>list_tables\<close> and \<open>describe_table\<close> raises \<open>ValueError\<close> out of the
  handler, before any call on the driver, instead of returning a text: the configuration
  is resolved before the \<open>try\<close> block begins.
\<close>

theorem missing_config_raises:
  assumes "env ''MYSQL_USER'' = None \<or> env ''MYSQL_PASSWORD'' = None \<or>
           env ''MYSQL_DATABASE'' = None"
  shows "(\<exists>m. execute_sql env db query = (Raised (ValueError m), [])) \<and>
         (\<exists>m. list_tables env db = (Raised (ValueError m), [])) \<and>
         (\<exists>m. describe_table env db table = (Raised (ValueError m), []))"
proof -
  have "\<exists>m. get_db_config env = Inl (ValueError m)"
  proof (cases "get_db_config env")
    case (Inl e)
    then show ?thesis using get_db_config_raises_ValueError by blast
  next
    case (Inr c)
    then show ?thesis using get_db_config_requires assms by blast
  qed
  then obtain m where "get_db_config env = Inl (ValueError m)" by blast
  then show ?thesis
    by (simp add: execute_sql_def list_tables_def describe_table_def)
qed

theorem missing_config_raises_witness:
  "(\<exists>m. execute_sql Map.empty (mock_db (result_set None 1 [])) ''SELECT 1'' =
          (Raised (ValueError m), [])) \<and>
   (\<exists>m. list_tables Map.empty (mock_db (result_set None 1 [])) = (Raised (ValueError m), [])) \<and>
   (\<exists>m. describe_table Map.empty (mock_db (result_set None 1 [])) ''users'' =
          (Raised (ValueError m), []))"
  using missing_config_raises
          [of Map.empty "mock_db (result_set None 1 [])" "''SELECT 1''" "''users''"]
  by simp

section \<open>Joining and splitting\<close>

lemma join_free:
  "c \<notin> set sep \<Longrightarrow> \<forall>x\<in>set xs. c \<notin> set x \<Longrightarrow> c \<notin> set (join sep xs)"
  by (induction sep xs rule: join.induct) auto

lemma split_on_nonempty: "split_on c s \<noteq> []"
  by (induction s) (auto split: list.splits)

lemma split_on_append_free:
  "c \<notin> set l \<Longrightarrow> split_on c (l @ s) = (l @ hd (split_on c s)) # tl (split_on c s)"
proof (induction l)
  case Nil
  then show ?case using split_on_nonempty [of c s] by simp
next
  case (Cons a l)
  then show ?case by auto
qed

lemma split_on_free: "c \<notin> set l \<Longrightarrow> split_on c l = [l]"
  using split_on_append_free [of c l "[]"] by simp

lemma split_on_join:
  "xs \<noteq> [] \<Longrightarrow> \<forall>l\<in>set xs. c \<notin> set l \<Longrightarrow> split_on c (join [c] xs) = xs"
proof (induction "[c]" xs rule: join.induct)
  case 1
  then show ?case by simp
next
  case (2 x)
  then show ?case by (simp add: split_on_free)
next
  case (3 x y ys)
  then have "split_on c (join [c] (y # ys)) = y # ys" by simp
  moreover have "c \<notin> set x" using 3 by simp
  ultimately show ?case by (simp add: split_on_append_free)
qed

section \<open>The handlers after the configuration is resolved\<close>

lemma try_except_returns: "\<exists>s. fst (try_except r) = Returned s"
  by (cases "fst r") (simp_all add: try_except_def)

lemma try_except_Inl: "fst r = Inl e \<Longrightarrow> fst (try_except r) = Returned (except_clauses e)"
  by (simp add: try_except_def)

text \<open>
  C4. With the configuration resolved, \<open>execute_sql\<close> returns a text for every query and
  every behaviour of the driver. When a driver call raises (on connecting, opening the
  cursor, executing, fetching or committing), the text is \<open>MySQL error: \<close> followed by
  the error text if the exception is a \<open>mysql.connector.Error\<close>, and \<open>Unexpected error: \<close>
  followed by the error text for any other exception. Nothing is added to the error
  text and nothing is taken from it: the message is one line whenever the error text
  holds no newline.
\<close>

theorem execute_sql_never_raises:
  assumes "get_db_config env = Inr config"
  shows "(\<exists>s. fst (execute_sql env db query) = Returned s) \<and>
         (connect db config = Some e \<or>
          (connect db config = None \<and> cursor db = Some e) \<or>
          (connect db config = None \<and> cursor db = None \<and> execute db query None = Inl e) \<or>
          (\<exists>cur. connect db config = None \<and> cursor db = None \<and>
                 execute db query None = Inr cur \<and>
                 description cur \<noteq> None \<and> description cur \<noteq> Some [] \<and>
                 fetchall cur = Inl e) \<or>
          (\<exists>cur. connect db config = None \<and> cursor db = None \<and>
                 execute db query None = Inr cur \<and>
                 (description cur = None \<or> description cur = Some []) \<and>
                 commit db = Some e)
          \<longrightarrow> (fst (execute_sql env db query) =
                  Returned (case e of
                              Error m \<Rightarrow> ''MySQL error: '' @ m
                            | ValueError m \<Rightarrow> ''Unexpected error: '' @ m
                            | OtherException m \<Rightarrow> ''Unexpected error: '' @ m) \<and>
               (CHR 0x0A \<notin> set (case e of Error m \<Rightarrow> m | ValueError m \<Rightarrow> m
                                  | OtherException m \<Rightarrow> m) \<longrightarrow>
                (\<exists>s. fst (execute_sql env db query) = Returned s \<and>
                     split_on (CHR 0x0A) s = [s]))))"
proof -
  have ec: "except_clauses e = (case e of
                            Error m \<Rightarrow> ''MySQL error: '' @ m
                          | ValueError m \<Rightarrow> ''Unexpected error: '' @ m
                          | OtherException m \<Rightarrow> ''Unexpected error: '' @ m)"
    by (cases e) simp_all
  have one: "split_on (CHR 0x0A) (except_clauses e) = [except_clauses e]"
    if "CHR 0x0A \<notin> set (case e of Error m \<Rightarrow> m | ValueError m \<Rightarrow> m
                           | OtherException m \<Rightarrow> m)"
    using that by (cases e) (simp_all add: split_on_free)
  have run: "execute_sql env db query =
               try_except (with_cursor config db (execute_sql_body db query))"
    using assms by (simp add: execute_sql_def)
  have 1: "\<exists>s. fst (execute_sql env db query) = Returned s"
    unfolding run by (rule try_except_returns)
  have 2: "fst (execute_sql env db query) = Returned (except_clauses e)"
    if "connect db config = Some e \<or>
          (connect db config = None \<and> cursor db = Some e) \<or>
          (connect db config = None \<and> cursor db = None \<and> execute db query None = Inl e) \<or>
          (\<exists>cur. connect db config = None \<and> cursor db = None \<and>
                 execute db query None = Inr cur \<and>
                 description cur \<noteq> None \<and> description cur \<noteq> Some [] \<and>
                 fetchall cur = Inl e) \<or>
          (\<exists>cur. connect db config = None \<and> cursor db = None \<and>
                 execute db query None = Inr cur \<and>
                 (description cur = None \<or> description cur = Some []) \<and>
                 commit db = Some e)"
  proof -
    have "fst (with_cursor config db (execute_sql_body db query)) = Inl e"
      using that
      by (auto simp: with_cursor_def execute_sql_body_def split: option.splits)
    then show ?thesis unfolding run by (rule try_except_Inl)
  qed
  show ?thesis using 1 2 one unfolding ec by metis
qed

theorem execute_sql_never_raises_witness:
  "get_db_config test_env = Inr test_config \<and>
   connect (unreachable_db ''Connection timeout'') test_config =
     Some (Error ''Connection timeout'') \<and>
   fst (execute_sql test_env (unreachable_db ''Connection timeout'') ''SELECT 1'') =
     Returned ''MySQL error: Connection timeout'' \<and>
   split_on (CHR 0x0A) ''MySQL error: Connection timeout'' = [''MySQL error: Connection timeout'']"
  using execute_sql_never_raises [OF test_env_config,
          of "unreachable_db ''Connection timeout''" "''SELECT 1''" "Error ''Connection timeout''"]
  by (simp add: test_env_config unreachable_db_def)

text \<open>
  The message is not one line for every failure: the server's text for a syntax error
  quotes the statement, and a statement written on two lines comes back in a message of
  two lines.
\<close>

theorem execute_sql_error_message_two_lines:
  "execute_sql test_env
     (rejecting_db (''1064 (42000): You have an error in your SQL syntax near 'FORM'' @
                    [CHR 0x0A] @ ''users' at line 1''))
     (''SELECT * FORM'' @ [CHR 0x0A] @ ''users'') =
     (Returned (''MySQL error: 1064 (42000): You have an error in your SQL syntax near 'FORM'' @
                [CHR 0x0A] @ ''users' at line 1''),
      [Connect, OpenCursor, Execute (''SELECT * FORM'' @ [CHR 0x0A] @ ''users'') None]) \<and>
   split_on (CHR 0x0A)
     (''MySQL error: 1064 (42000): You have an error in your SQL syntax near 'FORM'' @
      [CHR 0x0A] @ ''users' at line 1'') =
     [''MySQL error: 1064 (42000): You have an error in your SQL syntax near 'FORM'',
      ''users' at line 1'']"
  by (simp add: execute_sql_def test_env_config with_cursor_def try_except_def
                execute_sql_body_def rejecting_db_def)

text \<open>
  C5. A statement that yields a description of N columns (N at least 1) and M rows, M at
  least 1, is rendered as M+1 entries joined by newlines: first the column names joined
  by commas, then, for each row in order, its cells converted with \<open>str\<close> and joined by
  commas. When no column name and no cell text holds a newline, the text returned has
  exactly M+1 lines, and they are these entries.
\<close>

theorem execute_sql_rows:
  assumes "get_db_config env = Inr config"
      and "connect db config = None" and "cursor db = None"
      and "execute db query None = Inr cur"
      and "description cur = Some columns" and "columns \<noteq> []"
      and "fetchall cur = Inr rows" and "rows \<noteq> []"
  shows "execute_sql env db query =
           (Returned (join [CHR 0x0A]
                        (join '','' columns # map (\<lambda>row. join '','' (map py_str row)) rows)),
            [Connect, OpenCursor, Execute query None, Fetchall]) \<and>
         ((\<forall>c\<in>set columns. CHR 0x0A \<notin> set c) \<and>
          (\<forall>row\<in>set rows. \<forall>cell\<in>set row. CHR 0x0A \<notin> set (py_str cell)) \<longrightarrow>
          (\<exists>s. fst (execute_sql env db query) = Returned s \<and>
               split_on (CHR 0x0A) s =
                 join '','' columns # map (\<lambda>row. join '','' (map py_str row)) rows \<and>
               length (split_on (CHR 0x0A) s) = length rows + 1))"
proof -
  have run: "execute_sql env db query =
           (Returned (join [CHR 0x0A]
                        (join '','' columns # map (\<lambda>row. join '','' (map py_str row)) rows)),
            [Connect, OpenCursor, Execute query None, Fetchall])"
    using assms
    by (simp add: execute_sql_def with_cursor_def execute_sql_body_def try_except_def)
  have "split_on (CHR 0x0A)
          (join [CHR 0x0A]
             (join '','' columns # map (\<lambda>row. join '','' (map py_str row)) rows)) =
        join '','' columns # map (\<lambda>row. join '','' (map py_str row)) rows"
    if c: "\<forall>c\<in>set columns. CHR 0x0A \<notin> set c"
       and r: "\<forall>row\<in>set rows. \<forall>cell\<in>set row. CHR 0x0A \<notin> set (py_str cell)"
  proof (rule split_on_join)
    show "join '','' columns # map (\<lambda>row. join '','' (map py_str row)) rows \<noteq> []" by simp
    have h: "CHR 0x0A \<notin> set (join '','' columns)"
      using c by (intro join_free) simp_all
    have "CHR 0x0A \<notin> set (join '','' (map py_str row))" if "row \<in> set rows" for row
      using r that by (intro join_free) auto
    with h show "\<forall>l\<in>set (join '','' columns # map (\<lambda>row. join '','' (map py_str row)) rows).
                   CHR 0x0A \<notin> set l"
      by auto
  qed
  then show ?thesis unfolding run by simp
qed

theorem execute_sql_rows_witness:
  "execute_sql test_env
     (mock_db (result_set (Some [''Tables_in_test_db'']) 2
                 [[CStr ''users''], [CStr ''products'']]))
     ''SHOW TABLES'' =
   (Returned (''Tables_in_test_db'' @ [CHR 0x0A] @ ''users'' @ [CHR 0x0A] @ ''products''),
    [Connect, OpenCursor, Execute ''SHOW TABLES'' None, Fetchall]) \<and>
   split_on (CHR 0x0A)
     (''Tables_in_test_db'' @ [CHR 0x0A] @ ''users'' @ [CHR 0x0A] @ ''products'') =
     [''Tables_in_test_db'', ''users'', ''products'']"
  using execute_sql_rows [OF test_env_config,
          of "mock_db (result_set (Some [''Tables_in_test_db'']) 2
                         [[CStr ''users''], [CStr ''products'']])"
             "''SHOW TABLES''"
             "result_set (Some [''Tables_in_test_db'']) 2 [[CStr ''users''], [CStr ''products'']]"
             "[''Tables_in_test_db'']" "[[CStr ''users''], [CStr ''products'']]"]
  by (simp add: mock_db_def result_set_def)

text \<open>
  Cell text is copied without escaping, so the text returned can have more than M+1
  lines: one row whose only cell holds a newline gives three lines.
\<close>

theorem execute_sql_rows_cell_with_newline:
  "execute_sql test_env
     (mock_db (result_set (Some [''note'']) 1 [[CStr (''first'' @ [CHR 0x0A] @ ''second'')]]))
     ''SELECT note FROM notes'' =
   (Returned (''note'' @ [CHR 0x0A] @ ''first'' @ [CHR 0x0A] @ ''second''),
    [Connect, OpenCursor, Execute ''SELECT note FROM notes'' None, Fetchall]) \<and>
   length [[CStr (''first'' @ [CHR 0x0A] @ ''second'')]] + 1 = (2::nat) \<and>
   split_on (CHR 0x0A) (''note'' @ [CHR 0x0A] @ ''first'' @ [CHR 0x0A] @ ''second'') =
     [''note'', ''first'', ''second'']"
  by (simp add: execute_sql_def test_env_config with_cursor_def try_except_def
                execute_sql_body_def mock_db_def result_set_def)

text \<open>
  C6. A statement that leaves no description on the cursor is followed by exactly one
  \<open>commit\<close>, and the text returned embeds the row count reported by the driver; with a
  row count of 1 it is \<open>Query executed successfully. 1 rows affected.\<close>
\<close>

theorem execute_sql_affected:
  assumes "get_db_config env = Inr config"
      and "connect db config = None" and "cursor db = None"
      and "execute db query None = Inr cur"
      and "description cur = None"
      and "commit db = None"
  shows "execute_sql env db query =
           (Returned (''Query executed successfully. '' @ str_int (rowcount cur) @
                      '' rows affected.''),
            [Connect, OpenCursor, Execute query None, Commit]) \<and>
         count_list (snd (execute_sql env db query)) Commit = 1"
  using assms
  by (simp add: execute_sql_def with_cursor_def execute_sql_body_def try_except_def)

theorem execute_sql_affected_witness:
  "execute_sql test_env (mock_db (result_set None 1 []))
     ''INSERT INTO users (name) VALUES ('x')'' =
   (Returned ''Query executed successfully. 1 rows affected.'',
    [Connect, OpenCursor, Execute ''INSERT INTO users (name) VALUES ('x')'' None, Commit]) \<and>
   count_list (snd (execute_sql test_env (mock_db (result_set None 1 []))
                      ''INSERT INTO users (name) VALUES ('x')'')) Commit = 1"
  using execute_sql_affected [OF test_env_config,
          of "mock_db (result_set None 1 [])" "''INSERT INTO users (name) VALUES ('x')''"
             "result_set None 1 []"]
  by (simp add: mock_db_def result_set_def str_int_def str_nat.simps digit_char_def)

text \<open>
  C7. A statement that yields a description (of at least one column) and no row returns
  the fixed sentence \<open>Query executed successfully. No results returned.\<close>, not a header
  line.
\<close>

theorem execute_sql_no_rows:
  assumes "get_db_config env = Inr config"
      and "connect db config = None" and "cursor db = None"
      and "execute db query None = Inr cur"
      and "description cur = Some columns" and "columns \<noteq> []"
      and "fetchall cur = Inr []"
  shows "execute_sql env db query =
           (Returned ''Query executed successfully. No results returned.'',
            [Connect, OpenCursor, Execute query None, Fetchall])"
  using assms
  by (simp add: execute_sql_def with_cursor_def execute_sql_body_def try_except_def)

theorem execute_sql_no_rows_witness:
  "execute_sql test_env (mock_db (result_set (Some [''id'', ''name'']) 0 []))
     ''SELECT id, name FROM users WHERE 1 = 0'' =
   (Returned ''Query executed successfully. No results returned.'',
    [Connect, OpenCursor, Execute ''SELECT id, name FROM users WHERE 1 = 0'' None, Fetchall])"
  using execute_sql_no_rows [OF test_env_config,
          of "mock_db (result_set (Some [''id'', ''name'']) 0 [])"
             "''SELECT id, name FROM users WHERE 1 = 0''"
             "result_set (Some [''id'', ''name'']) 0 []" "[''id'', ''name'']"]
  by (simp add: mock_db_def result_set_def)

section \<open>The table report\<close>






section \<open>The existence check\<close>

text \<open>
  C3. When a step of the existence check fails with a database error (the connection is
  refused or times out, the cursor cannot be opened, the catalog statement or the fetch
  is denied), \<open>table_exists\<close> returns false and raises nothing.
\<close>

theorem table_exists_fails_closed:
  assumes "connect db config = Some (Error m) \<or>
           (connect db config = None \<and> cursor db = Some (Error m)) \<or>
           (connect db config = None \<and> cursor db = None \<and>
            execute db ''SHOW TABLES LIKE %s'' (Some [CStr name]) = Inl (Error m)) \<or>
           (\<exists>cur. connect db config = None \<and> cursor db = None \<and>
                  execute db ''SHOW TABLES LIKE %s'' (Some [CStr name]) = Inr cur \<and>
                  fetchone cur = Inl (Error m))"
  shows "fst (table_exists name config db) = Inr False"
  using assms
  by (auto simp: table_exists_def with_cursor_def table_exists_body_def)

theorem table_exists_fails_closed_witness:
  "connect (unreachable_db ''Connection failed'') test_config =
     Some (Error ''Connection failed'') \<and>
   fst (table_exists ''users'' test_config (unreachable_db ''Connection failed'')) = Inr False"
  using table_exists_fails_closed [of "unreachable_db ''Connection failed''" test_config
          "''Connection failed''" "''users''"]
  by (simp add: unreachable_db_def)

section \<open>describe_table without the two guards\<close>

text \<open>
  C1. The claim is that a name failing the identifier rule stops \<open>describe_table\<close> before
  any statement is sent and that the text returned says \<open>Invalid table name\<close>. The
  handler in \<open>server.py\<close> has no such step: for the name of the test suite,
  \<open>invalid;DROP TABLE users;--\<close>, which the rule rejects, it connects and sends the
  \<open>DESCRIBE\<close> statement built from the name, and returns what the server answers.
\<close>

theorem describe_table_invalid_name_reaches_database:
  "\<not> validate_table_name ''invalid;DROP TABLE users;--'' \<and>
   describe_table test_env (absent_table_db ''1146 (42S02): Table does not exist'')
     ''invalid;DROP TABLE users;--'' =
     (Returned ''MySQL error: 1146 (42S02): Table does not exist'',
      [Connect, OpenCursor, Execute ''DESCRIBE `invalid;DROP TABLE users;--`'' None])"
  by (simp add: validate_table_name_def is_ident_char_def is_letter_def is_digit_def
                describe_table_def test_env_config with_cursor_def try_except_def
                describe_table_body_def describe_query_def absent_table_db_def)

text \<open>
  C8. The claim is that for a valid name whose table the existence check reports absent,
  \<open>describe_table\<close> returns the fixed not-found sentence and sends neither the structure
  query nor the count query. The handler in \<open>server.py\<close> never runs the existence check:
  for \<open>nonexistent\<close> on a server without that table it sends the \<open>DESCRIBE\<close> statement
  and returns the server's error.
\<close>

theorem describe_table_absent_table_runs_describe:
  "validate_table_name ''nonexistent'' \<and>
   fst (table_exists ''nonexistent'' test_config
          (absent_table_db ''1146 (42S02): Table does not exist'')) = Inr False \<and>
   describe_table test_env (absent_table_db ''1146 (42S02): Table does not exist'')
     ''nonexistent'' =
     (Returned ''MySQL error: 1146 (42S02): Table does not exist'',
      [Connect, OpenCursor, Execute ''DESCRIBE `nonexistent`'' None])"
  by (simp add: validate_table_name_def is_ident_char_def is_letter_def is_digit_def
                describe_table_def test_env_config with_cursor_def try_except_def
                describe_table_body_def describe_query_def absent_table_db_def
                table_exists_def table_exists_body_def result_set_def)

end
